theory Spec2Isabelle
  imports Main "HOL-Library.Word"
begin

unbundle bit_operations_syntax

section \<open>The ESP32 I2C master driver (targets/esp32/jshardwareI2c.c)\<close>

subsection \<open>Constants of the platform and of the file\<close>

text \<open>
  \<open>esp_err_t\<close> is C's \<open>int\<close>. The driver only compares and passes these codes on, so no
  arithmetic can overflow: they are integers here. The four named codes carry the values of
  ESP-IDF's \<open>esp_err.h\<close> (\<open>ESP_OK 0\<close>, \<open>ESP_FAIL -1\<close>, \<open>ESP_ERR_INVALID_ARG 0x102\<close>,
  \<open>ESP_ERR_TIMEOUT 0x107\<close>).
\<close>

type_synonym esp_err_t = int

definition ESP_OK :: esp_err_t where
  "ESP_OK = 0"

definition ESP_FAIL :: esp_err_t where
  "ESP_FAIL = - 1"

definition ESP_ERR_INVALID_ARG :: esp_err_t where
  "ESP_ERR_INVALID_ARG = 258"

definition ESP_ERR_TIMEOUT :: esp_err_t where
  "ESP_ERR_TIMEOUT = 263"

text \<open>The four macros at the head of the file.\<close>

definition ACK_CHECK_EN :: int where
  "ACK_CHECK_EN = 1"

definition ACK_CHECK_DIS :: int where
  "ACK_CHECK_DIS = 0"

definition ACK_VAL :: int where
  "ACK_VAL = 0"

definition NACK_VAL :: int where
  "NACK_VAL = 1"

text \<open>ESP-IDF's \<open>i2c_rw_t\<close> and \<open>i2c_port_t\<close> enumerators, with their values.\<close>

definition I2C_MASTER_WRITE :: "32 word" where
  "I2C_MASTER_WRITE = 0"

definition I2C_MASTER_READ :: "32 word" where
  "I2C_MASTER_READ = 1"

definition I2C_NUM_0 :: int where
  "I2C_NUM_0 = 0"

definition I2C_NUM_1 :: int where
  "I2C_NUM_1 = 1"

subsection \<open>Data\<close>

text \<open>
  \<open>IOEventFlags\<close> is Espruino's device enumeration. The driver distinguishes \<open>EV_I2C1\<close>
  and \<open>EV_I2C2\<close>; \<open>EV_OTHER n\<close> stands for each of its remaining enumerators.
\<close>

datatype IOEventFlags = EV_I2C1 | EV_I2C2 | EV_OTHER nat

type_synonym Pin = "8 word"

type_synonym JshPinFunction = nat

datatype i2c_pin_role = JSH_I2C_SCL | JSH_I2C_SDA

record JshI2CInfo =
  bitrate :: int
  pinSCL :: Pin
  pinSDA :: Pin

datatype i2c_mode_t = I2C_MODE_SLAVE | I2C_MODE_MASTER

text \<open>
  \<open>i2c_config_t\<close> as \<open>jshI2CSetup\<close> fills it. \<open>clk_flags\<close> is assigned only on the
  ESP32C3 and ESP32S3 targets; \<open>None\<close> is the field left as declared.
\<close>

record i2c_config_t =
  mode :: i2c_mode_t
  sda_io_num :: int
  sda_pullup_en :: bool
  scl_io_num :: int
  scl_pullup_en :: bool
  clk_speed :: int
  clk_flags :: "int option"

text \<open>
  What the build and the board fix: the two build-time constants the file reads, whether
  the target is an ESP32C3 or ESP32S3, and the pin services of the board
  (\<open>jshIsPinValid\<close>, \<open>jshGetPinFunctionFromDevice\<close>, \<open>jshFindPinForFunction\<close>,
  \<open>pinToESP32Pin\<close>), which the driver only calls.
\<close>

record target =
  ESPR_I2C_COUNT :: nat
  portTICK_RATE_MS :: nat
  idf_target_c3_or_s3 :: bool
  jshIsPinValid :: "Pin \<Rightarrow> bool"
  jshGetPinFunctionFromDevice :: "IOEventFlags \<Rightarrow> JshPinFunction"
  jshFindPinForFunction :: "JshPinFunction \<Rightarrow> i2c_pin_role \<Rightarrow> Pin"
  pinToESP32Pin :: "Pin \<Rightarrow> int"

text \<open>
  Every call the driver makes into ESP-IDF's I2C driver, with the arguments it passes.
  A read names its destination by the offset into the caller's buffer.
\<close>

datatype hw_call =
    I2cDriverDelete int
  | I2cParamConfig int i2c_config_t
  | I2cDriverInstall int i2c_mode_t int int int
  | I2cCmdLinkCreate
  | I2cMasterStart
  | I2cMasterWriteByte "8 word" bool
  | I2cMasterWrite "8 word list" int bool
  | I2cMasterRead int int int
  | I2cMasterReadByte int int
  | I2cMasterStop
  | I2cMasterCmdBegin int nat
  | I2cCmdLinkDelete

text \<open>A call of \<open>jsExceptionHere(JSET_ERROR, fmt, ...)\<close>: the format and its arguments.\<close>

datatype fmt_arg = ArgS string | ArgD int

datatype js_exception = JSET_ERROR string "fmt_arg list"

text \<open>
  The state the driver acts on: the calls made into the platform so far (oldest first),
  the ports that hold an installed driver, the device flags, and the exceptions raised so
  far (oldest first).
\<close>

record i2c_state =
  hw :: "hw_call list"
  driver :: "int \<Rightarrow> bool"
  initialised :: "IOEventFlags \<Rightarrow> bool"
  exceptions :: "js_exception list"

subsection \<open>The collaborators\<close>

text \<open>
  Modelled from the spec: \<open>jshIsDeviceInitialised\<close> and \<open>jshSetDeviceInitialised\<close>
  (Espruino's jshardware layer, declared but not defined in this file) are the Bus
  Registry of section 4.1: \<open>isInitialized(bus) -> bool\<close> and
  \<open>setInitialized(bus, bool)\<close>, pure state tracking with no side effect beyond the flag.
\<close>

definition jshIsDeviceInitialised :: "IOEventFlags \<Rightarrow> i2c_state \<Rightarrow> bool" where
  "jshIsDeviceInitialised device st = initialised st device"

definition jshSetDeviceInitialised :: "IOEventFlags \<Rightarrow> bool \<Rightarrow> i2c_state \<Rightarrow> i2c_state" where
  "jshSetDeviceInitialised device isInit st =
     st\<lparr>initialised := (initialised st)(device := isInit)\<rparr>"

text \<open>
  Modelled from the spec: \<open>jsExceptionHere\<close> (Espruino's interpreter, not in this file)
  surfaces a descriptive error to the caller; here each call is recorded in order.
\<close>

definition jsExceptionHere :: "js_exception \<Rightarrow> i2c_state \<Rightarrow> i2c_state" where
  "jsExceptionHere e st = st\<lparr>exceptions := exceptions st @ [e]\<rparr>"

text \<open>
  Modelled from the spec: ESP-IDF's driver is the platform service of sections 5 and 6.
  Each call is recorded. A controller is owned from an \<open>i2c_driver_install\<close> that
  returns \<open>ESP_OK\<close> until the next \<open>i2c_driver_delete\<close> of its port (ownership
  transfers from free to owned on install and back on teardown). The status a call returns
  is the platform's choice: it is an argument of the operation that makes the call.
\<close>

definition platform :: "hw_call \<Rightarrow> i2c_state \<Rightarrow> i2c_state" where
  "platform c st = st\<lparr>hw := hw st @ [c]\<rparr>"

definition i2c_driver_delete :: "int \<Rightarrow> i2c_state \<Rightarrow> i2c_state" where
  "i2c_driver_delete port st =
     (platform (I2cDriverDelete port) st)\<lparr>driver := (driver st)(port := False)\<rparr>"

definition i2c_param_config :: "int \<Rightarrow> i2c_config_t \<Rightarrow> i2c_state \<Rightarrow> i2c_state" where
  "i2c_param_config port conf st = platform (I2cParamConfig port conf) st"

definition i2c_driver_install ::
  "int \<Rightarrow> i2c_mode_t \<Rightarrow> int \<Rightarrow> int \<Rightarrow> int \<Rightarrow> esp_err_t \<Rightarrow> i2c_state \<Rightarrow> i2c_state" where
  "i2c_driver_install port m rx tx flags ret st =
     (let st1 = platform (I2cDriverInstall port m rx tx flags) st
      in if ret = ESP_OK then st1\<lparr>driver := (driver st1)(port := True)\<rparr> else st1)"

subsection \<open>The driver\<close>

text \<open>\<open>checkError\<close>: raises the exception of the code's case and returns the code.\<close>

definition checkError :: "string \<Rightarrow> esp_err_t \<Rightarrow> i2c_state \<Rightarrow> esp_err_t \<times> i2c_state" where
  "checkError caller ret st =
     (if ret = ESP_OK then (ret, st)
      else if ret = ESP_ERR_INVALID_ARG then
        (ret, jsExceptionHere (JSET_ERROR ''%s:, Parameter error'' [ArgS caller]) st)
      else if ret = ESP_FAIL then
        (ret, jsExceptionHere (JSET_ERROR ''%s: slave doesn't ACK the transfer'' [ArgS caller]) st)
      else if ret = ESP_ERR_TIMEOUT then
        (ret, jsExceptionHere
           (JSET_ERROR ''%s:, Operation timeout because the bus is busy'' [ArgS caller]) st)
      else
        (ret, jsExceptionHere
           (JSET_ERROR ''%s:, unknown error code %d'' [ArgS caller, ArgD ret]) st))"

text \<open>\<open>I2CReset\<close>; the second bus is compiled in only when \<open>ESPR_I2C_COUNT > 1\<close>.\<close>

definition I2CReset :: "target \<Rightarrow> i2c_state \<Rightarrow> i2c_state" where
  "I2CReset tg st =
     (let st1 = (if jshIsDeviceInitialised EV_I2C1 st
                 then jshSetDeviceInitialised EV_I2C1 False (i2c_driver_delete I2C_NUM_0 st)
                 else st)
      in if 1 < ESPR_I2C_COUNT tg then
           (if jshIsDeviceInitialised EV_I2C2 st1
            then jshSetDeviceInitialised EV_I2C2 False (i2c_driver_delete I2C_NUM_1 st1)
            else st1)
         else st1)"

fun getI2cFromDevice :: "target \<Rightarrow> IOEventFlags \<Rightarrow> int" where
  "getI2cFromDevice tg EV_I2C1 = I2C_NUM_0"
| "getI2cFromDevice tg EV_I2C2 = (if 1 < ESPR_I2C_COUNT tg then I2C_NUM_1 else - 1)"
| "getI2cFromDevice tg (EV_OTHER n) = - 1"

text \<open>
  \<open>jshI2CSetup\<close>. The caller's \<open>info\<close> is updated in place by the pin resolution, so
  it is returned with the state. \<open>cfg_ret\<close> and \<open>inst_ret\<close> are what
  \<open>i2c_param_config\<close> and \<open>i2c_driver_install\<close> return. The \<open>jsDebug\<close> lines only
  print.
\<close>

definition jshI2CSetup ::
  "target \<Rightarrow> IOEventFlags \<Rightarrow> JshI2CInfo \<Rightarrow> esp_err_t \<Rightarrow> esp_err_t \<Rightarrow> i2c_state
     \<Rightarrow> JshI2CInfo \<times> i2c_state" where
  "jshI2CSetup tg device info cfg_ret inst_ret st =
     (let i2c_master_port = getI2cFromDevice tg device in
      if i2c_master_port = - 1 then
        (info, jsExceptionHere
           (JSET_ERROR ''Only I2C1 and I2C2 (if available on target) supported'' []) st)
      else
        let st1 = (if jshIsDeviceInitialised device st
                   then i2c_driver_delete i2c_master_port st else st);
            funcType = jshGetPinFunctionFromDevice tg device;
            info1 = (if \<not> jshIsPinValid tg (pinSCL info)
                     then info\<lparr>pinSCL := jshFindPinForFunction tg funcType JSH_I2C_SCL\<rparr>
                     else info);
            info2 = (if \<not> jshIsPinValid tg (pinSDA info1)
                     then info1\<lparr>pinSDA := jshFindPinForFunction tg funcType JSH_I2C_SDA\<rparr>
                     else info1);
            conf = \<lparr>mode = I2C_MODE_MASTER,
                    sda_io_num = pinToESP32Pin tg (pinSDA info2),
                    sda_pullup_en = True,
                    scl_io_num = pinToESP32Pin tg (pinSCL info2),
                    scl_pullup_en = True,
                    clk_speed = bitrate info2,
                    clk_flags = (if idf_target_c3_or_s3 tg then Some 0 else None)\<rparr>;
            st2 = i2c_param_config i2c_master_port conf st1
        in if cfg_ret = ESP_ERR_INVALID_ARG then
             (info2, jsExceptionHere (JSET_ERROR ''jshI2CSetup: Invalid arguments'' []) st2)
           else
             let st3 = i2c_driver_install i2c_master_port (mode conf) 0 0 0 inst_ret st2
             in if inst_ret = ESP_OK then (info2, jshSetDeviceInitialised device True st3)
                else (info2, snd (checkError ''jshI2CSetup'' inst_ret st3)))"

text \<open>
  The address byte: \<open>address\<close> is an \<open>unsigned char\<close>, promoted to \<open>int\<close> for the
  shift and the bitwise or, and cut back to the \<open>uint8_t\<close> parameter of
  \<open>i2c_master_write_byte\<close>.
\<close>

definition address_byte :: "8 word \<Rightarrow> 32 word \<Rightarrow> 8 word" where
  "address_byte address rw = ucast (push_bit 1 (ucast address :: 32 word) OR rw)"

text \<open>
  \<open>jshI2CWrite\<close>. \<open>data\<close> and \<open>nBytes\<close> are passed on as they come; \<open>ret\<close> is what
  \<open>i2c_master_cmd_begin\<close> returns (the status of every earlier step is overwritten).
\<close>

definition jshI2CWrite ::
  "target \<Rightarrow> IOEventFlags \<Rightarrow> 8 word \<Rightarrow> int \<Rightarrow> 8 word list \<Rightarrow> bool \<Rightarrow> esp_err_t
     \<Rightarrow> i2c_state \<Rightarrow> i2c_state" where
  "jshI2CWrite tg device address nBytes data sendStop ret st =
     (let i2c_master_port = getI2cFromDevice tg device in
      if i2c_master_port = - 1 then
        jsExceptionHere (JSET_ERROR ''Only I2C1 and I2C2 supported'' []) st
      else
        let st1 = platform I2cCmdLinkCreate st;
            st2 = platform I2cMasterStart st1;
            st3 = platform (I2cMasterWriteByte (address_byte address I2C_MASTER_WRITE)
                              (ACK_CHECK_EN \<noteq> 0)) st2;
            st4 = platform (I2cMasterWrite data nBytes (ACK_CHECK_EN \<noteq> 0)) st3;
            st5 = (if sendStop then platform I2cMasterStop st4 else st4);
            st6 = platform (I2cMasterCmdBegin i2c_master_port (1000 div portTICK_RATE_MS tg)) st5;
            st7 = platform I2cCmdLinkDelete st6
        in snd (checkError ''jshI2CWrite'' ret st7))"

text \<open>\<open>jshI2CRead\<close>; \<open>ret\<close> as for the write.\<close>

definition jshI2CRead ::
  "target \<Rightarrow> IOEventFlags \<Rightarrow> 8 word \<Rightarrow> int \<Rightarrow> bool \<Rightarrow> esp_err_t
     \<Rightarrow> i2c_state \<Rightarrow> i2c_state" where
  "jshI2CRead tg device address nBytes sendStop ret st =
     (if nBytes \<le> 0 then st
      else
        let i2c_master_port = getI2cFromDevice tg device in
        if i2c_master_port = - 1 then
          jsExceptionHere (JSET_ERROR ''Only I2C1 and I2C2 supported'' []) st
        else
          let st1 = platform I2cCmdLinkCreate st;
              st2 = platform I2cMasterStart st1;
              st3 = platform (I2cMasterWriteByte (address_byte address I2C_MASTER_READ)
                                (ACK_CHECK_EN \<noteq> 0)) st2;
              st4 = (if 1 < nBytes then platform (I2cMasterRead 0 (nBytes - 1) ACK_VAL) st3
                     else st3);
              st5 = platform (I2cMasterReadByte (nBytes - 1) NACK_VAL) st4;
              st6 = (if sendStop then platform I2cMasterStop st5 else st5);
              st7 = platform (I2cMasterCmdBegin i2c_master_port (1000 div portTICK_RATE_MS tg)) st6;
              st8 = platform I2cCmdLinkDelete st7
          in snd (checkError ''jshI2CRead'' ret st8))"

subsection \<open>Concrete inputs\<close>

text \<open>
  An ESP32 build with both buses, a tick of 10 ms, every pin below 40 valid, and the
  board's default pins 22 (SCL) and 21 (SDA); the state at start-up; a configuration that
  leaves both pins to the board.
\<close>

definition esp32 :: target where
  "esp32 = \<lparr>ESPR_I2C_COUNT = 2, portTICK_RATE_MS = 10, idf_target_c3_or_s3 = False,
            jshIsPinValid = (\<lambda>p. p < 40),
            jshGetPinFunctionFromDevice = (\<lambda>d. case d of EV_I2C1 \<Rightarrow> 1 | EV_I2C2 \<Rightarrow> 2 | _ \<Rightarrow> 0),
            jshFindPinForFunction = (\<lambda>f r. case r of JSH_I2C_SCL \<Rightarrow> 22 | JSH_I2C_SDA \<Rightarrow> 21),
            pinToESP32Pin = (\<lambda>p. uint p)\<rparr>"

definition esp32c3 :: target where
  "esp32c3 = esp32\<lparr>ESPR_I2C_COUNT := 1, idf_target_c3_or_s3 := True\<rparr>"

definition boot :: i2c_state where
  "boot = \<lparr>hw = [], driver = (\<lambda>p. False), initialised = (\<lambda>d. False), exceptions = []\<rparr>"

definition default_info :: JshI2CInfo where
  "default_info = \<lparr>bitrate = 100000, pinSCL = 255, pinSDA = 255\<rparr>"

text \<open>Both buses marked initialised, each port holding its driver.\<close>

definition both_up :: i2c_state where
  "both_up = boot\<lparr>driver := (\<lambda>p. p = 0 \<or> p = 1),
                  initialised := (\<lambda>d. d = EV_I2C1 \<or> d = EV_I2C2)\<rparr>"

text \<open>The state after one successful \<open>jshI2CSetup\<close> of the first bus from start-up.\<close>

definition i2c1_up :: i2c_state where
  "i2c1_up = snd (jshI2CSetup esp32 EV_I2C1 default_info ESP_OK ESP_OK boot)"

section \<open>Properties\<close>

subsection \<open>Auxiliary facts\<close>

lemma esp_codes_distinct:
  "ESP_OK \<noteq> ESP_ERR_INVALID_ARG" "ESP_OK \<noteq> ESP_FAIL" "ESP_OK \<noteq> ESP_ERR_TIMEOUT"
  "ESP_ERR_INVALID_ARG \<noteq> ESP_FAIL" "ESP_ERR_INVALID_ARG \<noteq> ESP_ERR_TIMEOUT"
  "ESP_FAIL \<noteq> ESP_ERR_TIMEOUT"
  by (simp_all add: ESP_OK_def ESP_ERR_INVALID_ARG_def ESP_FAIL_def ESP_ERR_TIMEOUT_def)

text \<open>
  The promotion to \<open>int\<close> and the cut back to eight bits change nothing: the address
  byte is the 8-bit shift of the address with the direction bit set into it.
\<close>

lemma address_byte_eq: "address_byte a rw = push_bit 1 a OR ucast rw"
  unfolding address_byte_def
  apply (rule bit_word_eqI)
  apply (simp only: bit_simps)
  apply auto
  done

lemma address_byte_read: "address_byte a I2C_MASTER_READ = push_bit 1 a OR 1"
  by (simp add: address_byte_eq I2C_MASTER_READ_def)

lemma address_byte_write: "address_byte a I2C_MASTER_WRITE = push_bit 1 a"
  by (simp add: address_byte_eq I2C_MASTER_WRITE_def)

text \<open>What \<open>checkError\<close> and a platform call leave alone.\<close>

lemma checkError_frame:
  "hw (snd (checkError caller ret st)) = hw st"
  "driver (snd (checkError caller ret st)) = driver st"
  "initialised (snd (checkError caller ret st)) = initialised st"
  by (simp_all add: checkError_def jsExceptionHere_def)

lemma checkError_flags:
  "snd (checkError caller ret (st\<lparr>initialised := f\<rparr>)) =
     (snd (checkError caller ret st))\<lparr>initialised := f\<rparr>"
  by (simp add: checkError_def jsExceptionHere_def)

lemma platform_flags:
  "platform c (st\<lparr>initialised := f\<rparr>) = (platform c st)\<lparr>initialised := f\<rparr>"
  by (simp add: platform_def)

lemma jsExceptionHere_flags:
  "jsExceptionHere e (st\<lparr>initialised := f\<rparr>) = (jsExceptionHere e st)\<lparr>initialised := f\<rparr>"
  by (simp add: jsExceptionHere_def)

lemma platform_exceptions: "exceptions (platform c st) = exceptions st"
  by (simp add: platform_def)

lemma platform_initialised: "initialised (platform c st) = initialised st"
  by (simp add: platform_def)

lemma platform_hw: "hw (platform c st) = hw st @ [c]"
  by (simp add: platform_def)

text \<open>The concrete inputs, field by field.\<close>

lemma esp32_fields:
  "ESPR_I2C_COUNT esp32 = 2" "portTICK_RATE_MS esp32 = 10" "idf_target_c3_or_s3 esp32 = False"
  "jshIsPinValid esp32 p = (p < 40)"
  "jshFindPinForFunction esp32 f JSH_I2C_SCL = 22" "jshFindPinForFunction esp32 f JSH_I2C_SDA = 21"
  "pinToESP32Pin esp32 p = uint p"
  by (simp_all add: esp32_def)

lemma esp32c3_fields:
  "ESPR_I2C_COUNT esp32c3 = 1" "portTICK_RATE_MS esp32c3 = 10"
  "idf_target_c3_or_s3 esp32c3 = True"
  by (simp_all add: esp32c3_def esp32_def)

lemma boot_fields:
  "hw boot = []" "driver boot p = False" "initialised boot d = False" "exceptions boot = []"
  by (simp_all add: boot_def)

lemma default_info_fields:
  "bitrate default_info = 100000" "pinSCL default_info = 255" "pinSDA default_info = 255"
  by (simp_all add: default_info_def)

lemma both_up_fields:
  "hw both_up = []" "driver both_up p = (p = 0 \<or> p = 1)"
  "initialised both_up d = (d = EV_I2C1 \<or> d = EV_I2C2)" "exceptions both_up = []"
  by (simp_all add: both_up_def boot_def)

lemma i2c1_up_fields:
  "hw i2c1_up =
     [I2cParamConfig 0 \<lparr>mode = I2C_MODE_MASTER, sda_io_num = 21, sda_pullup_en = True,
         scl_io_num = 22, scl_pullup_en = True, clk_speed = 100000, clk_flags = None\<rparr>,
      I2cDriverInstall 0 I2C_MODE_MASTER 0 0 0]"
  "driver i2c1_up p = (p = 0)"
  "initialised i2c1_up d = (d = EV_I2C1)"
  "exceptions i2c1_up = []"
  by (simp_all add: i2c1_up_def jshI2CSetup_def Let_def I2C_NUM_0_def esp32_fields
      boot_fields default_info_fields jshIsDeviceInitialised_def jshSetDeviceInitialised_def
      i2c_param_config_def i2c_driver_install_def platform_def esp_codes_distinct)

text \<open>Neither transaction reads or writes a device flag.\<close>

lemma jshI2CWrite_flags:
  "jshI2CWrite tg device address nBytes data sendStop ret (st\<lparr>initialised := f\<rparr>) =
     (jshI2CWrite tg device address nBytes data sendStop ret st)\<lparr>initialised := f\<rparr>"
  by (simp add: jshI2CWrite_def Let_def platform_flags jsExceptionHere_flags checkError_flags)

lemma jshI2CRead_flags:
  "jshI2CRead tg device address nBytes sendStop ret (st\<lparr>initialised := f\<rparr>) =
     (jshI2CRead tg device address nBytes sendStop ret st)\<lparr>initialised := f\<rparr>"
  by (simp add: jshI2CRead_def Let_def platform_flags jsExceptionHere_flags checkError_flags)

lemma jshI2CWrite_initialised:
  "initialised (jshI2CWrite tg device address nBytes data sendStop ret st) = initialised st"
  by (simp add: jshI2CWrite_def Let_def checkError_frame platform_initialised
      jsExceptionHere_def)

lemma jshI2CRead_initialised:
  "initialised (jshI2CRead tg device address nBytes sendStop ret st) = initialised st"
  by (simp add: jshI2CRead_def Let_def checkError_frame platform_initialised
      jsExceptionHere_def)

text \<open>On a supported bus the only exception of a transaction is the one of its submit.\<close>

lemma jshI2CWrite_exceptions:
  "getI2cFromDevice tg device \<noteq> - 1 \<Longrightarrow>
   exceptions (jshI2CWrite tg device address nBytes data sendStop ret st) =
     exceptions (snd (checkError ''jshI2CWrite'' ret st))"
  by (simp add: jshI2CWrite_def Let_def checkError_def jsExceptionHere_def platform_exceptions)

lemma jshI2CRead_exceptions:
  "getI2cFromDevice tg device \<noteq> - 1 \<Longrightarrow> 1 \<le> nBytes \<Longrightarrow>
   exceptions (jshI2CRead tg device address nBytes sendStop ret st) =
     exceptions (snd (checkError ''jshI2CRead'' ret st))"
  by (simp add: jshI2CRead_def Let_def checkError_def jsExceptionHere_def platform_exceptions)

lemma jshI2CWrite_submits:
  "getI2cFromDevice tg device \<noteq> - 1 \<Longrightarrow>
   I2cMasterCmdBegin (getI2cFromDevice tg device) (1000 div portTICK_RATE_MS tg)
     \<in> set (drop (length (hw st))
              (hw (jshI2CWrite tg device address nBytes data sendStop ret st)))"
  by (simp add: jshI2CWrite_def Let_def checkError_frame platform_hw)

lemma jshI2CRead_submits:
  "getI2cFromDevice tg device \<noteq> - 1 \<Longrightarrow> 1 \<le> nBytes \<Longrightarrow>
   I2cMasterCmdBegin (getI2cFromDevice tg device) (1000 div portTICK_RATE_MS tg)
     \<in> set (drop (length (hw st))
              (hw (jshI2CRead tg device address nBytes sendStop ret st)))"
  by (simp add: jshI2CRead_def Let_def checkError_frame platform_hw)

subsection \<open>The transaction builders\<close>

text \<open>
  Claim C1. On a supported bus, for every address, every count of at least 1 and either
  value of \<open>sendStop\<close>, \<open>jshI2CRead\<close> creates a command link and queues on it, in this
  order: the start; the write of the byte \<open>address << 1 | 1\<close> with the ACK check on;
  exactly when the count exceeds 1, the read of \<open>count - 1\<close> bytes into the head of the
  buffer under \<open>ACK_VAL\<close>; always one read of a single byte, into the last place of the
  buffer, under \<open>NACK_VAL\<close>; the stop exactly when \<open>sendStop\<close> is set. It then submits
  the link once and deletes it. Nothing else reaches the platform.
\<close>

theorem jshI2CRead_sequence:
  assumes "getI2cFromDevice tg device \<noteq> - 1" and "1 \<le> nBytes"
  shows "hw (jshI2CRead tg device address nBytes sendStop ret st) =
     hw st @ [I2cCmdLinkCreate, I2cMasterStart, I2cMasterWriteByte (push_bit 1 address OR 1) True]
       @ (if 1 < nBytes then [I2cMasterRead 0 (nBytes - 1) ACK_VAL] else [])
       @ [I2cMasterReadByte (nBytes - 1) NACK_VAL]
       @ (if sendStop then [I2cMasterStop] else [])
       @ [I2cMasterCmdBegin (getI2cFromDevice tg device) (1000 div portTICK_RATE_MS tg),
          I2cCmdLinkDelete]"
  using assms
  by (simp add: jshI2CRead_def Let_def checkError_frame platform_def address_byte_read
      ACK_CHECK_EN_def)

theorem jshI2CRead_sequence_witness:
  "hw (jshI2CRead esp32 EV_I2C1 80 1 True ESP_OK boot) =
     [I2cCmdLinkCreate, I2cMasterStart, I2cMasterWriteByte 161 True, I2cMasterReadByte 0 1,
      I2cMasterStop, I2cMasterCmdBegin 0 100, I2cCmdLinkDelete] \<and>
   hw (jshI2CRead esp32 EV_I2C2 80 5 False ESP_OK boot) =
     [I2cCmdLinkCreate, I2cMasterStart, I2cMasterWriteByte 161 True, I2cMasterRead 0 4 0,
      I2cMasterReadByte 4 1, I2cMasterCmdBegin 1 100, I2cCmdLinkDelete]"
  using jshI2CRead_sequence [of esp32 EV_I2C1 1 80 True ESP_OK boot]
    jshI2CRead_sequence [of esp32 EV_I2C2 5 80 False ESP_OK boot]
  by (simp add: esp32_fields boot_fields I2C_NUM_0_def I2C_NUM_1_def ACK_VAL_def NACK_VAL_def)

text \<open>
  Claim C2. On a supported bus, for every address, every data block and either value of
  \<open>sendStop\<close>, \<open>jshI2CWrite\<close> creates a command link and queues on it, in this order:
  the start; the write of the byte \<open>address << 1 | 0\<close> with the ACK check on; the write
  of the data block with the ACK check on; the stop exactly when \<open>sendStop\<close> is set. It
  then submits the link once and deletes it. Nothing else reaches the platform.
\<close>

theorem jshI2CWrite_sequence:
  assumes "getI2cFromDevice tg device \<noteq> - 1"
  shows "hw (jshI2CWrite tg device address nBytes data sendStop ret st) =
     hw st @ [I2cCmdLinkCreate, I2cMasterStart, I2cMasterWriteByte (push_bit 1 address) True,
              I2cMasterWrite data nBytes True]
       @ (if sendStop then [I2cMasterStop] else [])
       @ [I2cMasterCmdBegin (getI2cFromDevice tg device) (1000 div portTICK_RATE_MS tg),
          I2cCmdLinkDelete]"
  using assms
  by (simp add: jshI2CWrite_def Let_def checkError_frame platform_def address_byte_write
      ACK_CHECK_EN_def)

theorem jshI2CWrite_sequence_witness:
  "hw (jshI2CWrite esp32 EV_I2C1 80 2 [16, 32] True ESP_OK boot) =
     [I2cCmdLinkCreate, I2cMasterStart, I2cMasterWriteByte 160 True,
      I2cMasterWrite [16, 32] 2 True, I2cMasterStop, I2cMasterCmdBegin 0 100,
      I2cCmdLinkDelete] \<and>
   hw (jshI2CWrite esp32 EV_I2C1 80 2 [16, 32] False ESP_OK boot) =
     [I2cCmdLinkCreate, I2cMasterStart, I2cMasterWriteByte 160 True,
      I2cMasterWrite [16, 32] 2 True, I2cMasterCmdBegin 0 100, I2cCmdLinkDelete]"
  using jshI2CWrite_sequence [of esp32 EV_I2C1 80 2 "[16, 32]" True ESP_OK boot]
    jshI2CWrite_sequence [of esp32 EV_I2C1 80 2 "[16, 32]" False ESP_OK boot]
  by (simp add: esp32_fields boot_fields I2C_NUM_0_def)

subsection \<open>Configuring a bus\<close>

text \<open>
  Claim C3, which the code does not meet. When \<open>jshI2CSetup\<close> is called for a supported
  bus that is marked initialised and \<open>i2c_param_config\<close> answers
  \<open>ESP_ERR_INVALID_ARG\<close>, the first call to the platform is the deletion of the driver
  of the port, the port holds no driver afterwards, and the one exception raised is
  ``jshI2CSetup: Invalid arguments''; but the device is still marked initialised: the flag
  is cleared neither before the reprogramming nor on the failure. \<open>I2CReset\<close> clears the
  flag right after the same deletion.
\<close>

theorem jshI2CSetup_invalid_arg_keeps_flag:
  assumes "getI2cFromDevice tg device \<noteq> - 1" and "initialised st device"
  shows "initialised (snd (jshI2CSetup tg device info ESP_ERR_INVALID_ARG inst_ret st)) device \<and>
     \<not> driver (snd (jshI2CSetup tg device info ESP_ERR_INVALID_ARG inst_ret st))
          (getI2cFromDevice tg device) \<and>
     exceptions (snd (jshI2CSetup tg device info ESP_ERR_INVALID_ARG inst_ret st)) =
       exceptions st @ [JSET_ERROR ''jshI2CSetup: Invalid arguments'' []] \<and>
     take (Suc (length (hw st)))
       (hw (snd (jshI2CSetup tg device info ESP_ERR_INVALID_ARG inst_ret st))) =
       hw st @ [I2cDriverDelete (getI2cFromDevice tg device)]"
  using assms
  by (simp add: jshI2CSetup_def Let_def jshIsDeviceInitialised_def i2c_driver_delete_def
      i2c_param_config_def platform_def jsExceptionHere_def)

theorem jshI2CSetup_invalid_arg_keeps_flag_witness:
  "initialised i2c1_up EV_I2C1 \<and> driver i2c1_up 0 \<and>
   initialised (snd (jshI2CSetup esp32 EV_I2C1 default_info ESP_ERR_INVALID_ARG ESP_OK i2c1_up))
     EV_I2C1 \<and>
   \<not> driver (snd (jshI2CSetup esp32 EV_I2C1 default_info ESP_ERR_INVALID_ARG ESP_OK i2c1_up)) 0 \<and>
   exceptions (snd (jshI2CSetup esp32 EV_I2C1 default_info ESP_ERR_INVALID_ARG ESP_OK i2c1_up)) =
     [JSET_ERROR ''jshI2CSetup: Invalid arguments'' []]"
  using jshI2CSetup_invalid_arg_keeps_flag
    [of esp32 EV_I2C1 i2c1_up default_info ESP_OK]
  by (simp add: I2C_NUM_0_def i2c1_up_fields)

text \<open>
  Claim C4, which the code does not meet. After a successful \<open>jshI2CSetup\<close> of the first
  bus the flag and the ownership of port 0 agree (both set). A second \<open>jshI2CSetup\<close>
  whose \<open>i2c_driver_install\<close> fails deletes the driver and installs none, yet leaves the
  device marked initialised: the flag no longer tells the ownership, and the next
  \<open>I2CReset\<close> deletes a driver that is not there.
\<close>

theorem jshI2CSetup_install_failure_stale_flag:
  "initialised i2c1_up EV_I2C1 \<and> driver i2c1_up (getI2cFromDevice esp32 EV_I2C1) \<and>
   initialised (snd (jshI2CSetup esp32 EV_I2C1 default_info ESP_OK ESP_FAIL i2c1_up)) EV_I2C1 \<and>
   \<not> driver (snd (jshI2CSetup esp32 EV_I2C1 default_info ESP_OK ESP_FAIL i2c1_up))
        (getI2cFromDevice esp32 EV_I2C1) \<and>
   exceptions (snd (jshI2CSetup esp32 EV_I2C1 default_info ESP_OK ESP_FAIL i2c1_up)) =
     [JSET_ERROR ''%s: slave doesn't ACK the transfer'' [ArgS ''jshI2CSetup'']] \<and>
   drop 5 (hw (I2CReset esp32
      (snd (jshI2CSetup esp32 EV_I2C1 default_info ESP_OK ESP_FAIL i2c1_up)))) =
     [I2cDriverDelete 0]"
  using esp_codes_distinct
  by (simp add: jshI2CSetup_def I2CReset_def Let_def I2C_NUM_0_def I2C_NUM_1_def esp32_fields
      i2c1_up_fields default_info_fields jshIsDeviceInitialised_def jshSetDeviceInitialised_def
      i2c_driver_delete_def i2c_param_config_def i2c_driver_install_def platform_def
      checkError_def jsExceptionHere_def)

text \<open>
  Claim C8. For every device that \<open>getI2cFromDevice\<close> maps to no port, \<open>jshI2CSetup\<close>
  raises the one exception ``Only I2C1 and I2C2 (if available on target) supported'' and
  does nothing else: no call reaches the platform, no driver and no device flag changes,
  and the caller's \<open>info\<close> is returned as it came.
\<close>

theorem jshI2CSetup_unsupported:
  "getI2cFromDevice tg device = - 1 \<Longrightarrow>
   jshI2CSetup tg device info cfg_ret inst_ret st =
     (info, st\<lparr>exceptions := exceptions st @
        [JSET_ERROR ''Only I2C1 and I2C2 (if available on target) supported'' []]\<rparr>)"
  by (simp add: jshI2CSetup_def jsExceptionHere_def)

theorem jshI2CSetup_unsupported_witness:
  "jshI2CSetup esp32c3 EV_I2C2 default_info ESP_OK ESP_OK boot =
     (default_info, boot\<lparr>exceptions :=
        [JSET_ERROR ''Only I2C1 and I2C2 (if available on target) supported'' []]\<rparr>)"
  using jshI2CSetup_unsupported [of esp32c3 EV_I2C2 default_info ESP_OK ESP_OK boot]
  by (simp add: esp32c3_fields boot_fields)

subsection \<open>Transactions and the device flag\<close>

text \<open>
  Claim C5 as stated fails: on the first bus, marked uninitialised at start-up, a write
  and a read each create, fill, submit and delete a command link, and with a submit that
  returns \<open>ESP_OK\<close> neither raises an exception.
\<close>

theorem transaction_on_uninitialised_bus_counterexample:
  "\<not> initialised boot EV_I2C1 \<and> getI2cFromDevice esp32 EV_I2C1 = 0 \<and>
   hw (jshI2CWrite esp32 EV_I2C1 80 2 [16, 32] True ESP_OK boot) =
     [I2cCmdLinkCreate, I2cMasterStart, I2cMasterWriteByte 160 True,
      I2cMasterWrite [16, 32] 2 True, I2cMasterStop, I2cMasterCmdBegin 0 100,
      I2cCmdLinkDelete] \<and>
   exceptions (jshI2CWrite esp32 EV_I2C1 80 2 [16, 32] True ESP_OK boot) = [] \<and>
   hw (jshI2CRead esp32 EV_I2C1 80 1 True ESP_OK boot) =
     [I2cCmdLinkCreate, I2cMasterStart, I2cMasterWriteByte 161 True, I2cMasterReadByte 0 1,
      I2cMasterStop, I2cMasterCmdBegin 0 100, I2cCmdLinkDelete] \<and>
   exceptions (jshI2CRead esp32 EV_I2C1 80 1 True ESP_OK boot) = []"
  by (simp add: jshI2CWrite_def jshI2CRead_def Let_def I2C_NUM_0_def esp32_fields
      boot_fields platform_def checkError_def address_byte_read address_byte_write
      ACK_CHECK_EN_def NACK_VAL_def)

text \<open>
  Claim C5, amended. On a supported bus a write, and a read of at least one byte, never
  consult the device flags: run from a state with any other flags \<open>f\<close>, each does what
  it does otherwise, and the flags are the same after as before. Whether the bus is marked
  initialised or not, each submits its command link to the platform, and the only
  exception it can raise is the one \<open>checkError\<close> raises for the status of that submit.
\<close>

theorem transactions_ignore_registry:
  assumes "getI2cFromDevice tg device \<noteq> - 1" and "1 \<le> count"
  shows
    "jshI2CWrite tg device address nBytes data sendStop ret (st\<lparr>initialised := f\<rparr>) =
       (jshI2CWrite tg device address nBytes data sendStop ret st)\<lparr>initialised := f\<rparr> \<and>
     jshI2CRead tg device address count sendStop ret (st\<lparr>initialised := f\<rparr>) =
       (jshI2CRead tg device address count sendStop ret st)\<lparr>initialised := f\<rparr> \<and>
     initialised (jshI2CWrite tg device address nBytes data sendStop ret st) =
       initialised st \<and>
     initialised (jshI2CRead tg device address count sendStop ret st) = initialised st \<and>
     I2cMasterCmdBegin (getI2cFromDevice tg device) (1000 div portTICK_RATE_MS tg)
       \<in> set (drop (length (hw st))
                (hw (jshI2CWrite tg device address nBytes data sendStop ret st))) \<and>
     I2cMasterCmdBegin (getI2cFromDevice tg device) (1000 div portTICK_RATE_MS tg)
       \<in> set (drop (length (hw st))
                (hw (jshI2CRead tg device address count sendStop ret st))) \<and>
     exceptions (jshI2CWrite tg device address nBytes data sendStop ret st) =
       exceptions (snd (checkError ''jshI2CWrite'' ret st)) \<and>
     exceptions (jshI2CRead tg device address count sendStop ret st) =
       exceptions (snd (checkError ''jshI2CRead'' ret st))"
  using assms
  by (simp add: jshI2CWrite_flags jshI2CRead_flags jshI2CWrite_initialised
      jshI2CRead_initialised jshI2CWrite_submits jshI2CRead_submits
      jshI2CWrite_exceptions jshI2CRead_exceptions)

theorem transactions_ignore_registry_witness:
  "jshI2CWrite esp32 EV_I2C1 80 2 [16, 32] True ESP_FAIL (boot\<lparr>initialised := (\<lambda>d. True)\<rparr>) =
     (jshI2CWrite esp32 EV_I2C1 80 2 [16, 32] True ESP_FAIL boot)\<lparr>initialised := (\<lambda>d. True)\<rparr> \<and>
   I2cMasterCmdBegin 0 100 \<in> set (hw (jshI2CRead esp32 EV_I2C1 80 1 True ESP_FAIL boot)) \<and>
   exceptions (jshI2CRead esp32 EV_I2C1 80 1 True ESP_FAIL boot) =
     [JSET_ERROR ''%s: slave doesn't ACK the transfer'' [ArgS ''jshI2CRead'']]"
  using transactions_ignore_registry [where tg = esp32 and device = EV_I2C1 and count = 1
      and address = 80 and nBytes = 2 and data = "[16, 32]" and sendStop = True
      and ret = ESP_FAIL and st = boot and f = "\<lambda>d. True"]
  using esp_codes_distinct
  by (simp add: esp32_fields I2C_NUM_0_def boot_fields checkError_def jsExceptionHere_def)

subsection \<open>The error classifier\<close>

text \<open>
  Claim C6. \<open>checkError\<close> is total and hands the code back unchanged. It touches nothing
  but the exceptions, raises none exactly for \<open>ESP_OK\<close>, and otherwise raises exactly
  one: the parameter error exactly for \<open>ESP_ERR_INVALID_ARG\<close>, the missing ACK of the
  slave exactly for \<open>ESP_FAIL\<close>, the timeout exactly for \<open>ESP_ERR_TIMEOUT\<close>, and for
  every other code the unknown-error exception that carries the code itself.
\<close>

theorem checkError_total:
  "fst (checkError caller ret st) = ret \<and>
   (\<exists>es. snd (checkError caller ret st) = st\<lparr>exceptions := exceptions st @ es\<rparr> \<and>
      length es \<le> 1 \<and>
      (es = [] \<longleftrightarrow> ret = ESP_OK) \<and>
      (es = [JSET_ERROR ''%s:, Parameter error'' [ArgS caller]]
         \<longleftrightarrow> ret = ESP_ERR_INVALID_ARG) \<and>
      (es = [JSET_ERROR ''%s: slave doesn't ACK the transfer'' [ArgS caller]]
         \<longleftrightarrow> ret = ESP_FAIL) \<and>
      (es = [JSET_ERROR ''%s:, Operation timeout because the bus is busy'' [ArgS caller]]
         \<longleftrightarrow> ret = ESP_ERR_TIMEOUT) \<and>
      (es = [JSET_ERROR ''%s:, unknown error code %d'' [ArgS caller, ArgD ret]]
         \<longleftrightarrow> ret \<notin> {ESP_OK, ESP_ERR_INVALID_ARG, ESP_FAIL, ESP_ERR_TIMEOUT}))"
proof -
  consider (ok) "ret = ESP_OK" | (arg) "ret = ESP_ERR_INVALID_ARG" | (nack) "ret = ESP_FAIL"
    | (tmo) "ret = ESP_ERR_TIMEOUT"
    | (other) "ret \<notin> {ESP_OK, ESP_ERR_INVALID_ARG, ESP_FAIL, ESP_ERR_TIMEOUT}"
    by auto
  then show ?thesis
  proof cases
    case ok
    then show ?thesis
      using esp_codes_distinct by (simp add: checkError_def)
  next
    case arg
    then show ?thesis
      using esp_codes_distinct by (simp add: checkError_def jsExceptionHere_def)
  next
    case nack
    then show ?thesis
      using esp_codes_distinct by (simp add: checkError_def jsExceptionHere_def)
  next
    case tmo
    then show ?thesis
      using esp_codes_distinct by (simp add: checkError_def jsExceptionHere_def)
  next
    case other
    then show ?thesis
      by (simp add: checkError_def jsExceptionHere_def)
  qed
qed

theorem checkError_total_witness:
  "checkError ''jshI2CRead'' 261 boot =
     (261, boot\<lparr>exceptions :=
        [JSET_ERROR ''%s:, unknown error code %d'' [ArgS ''jshI2CRead'', ArgD 261]]\<rparr>)"
proof -
  have "(261::int) \<notin> {ESP_OK, ESP_ERR_INVALID_ARG, ESP_FAIL, ESP_ERR_TIMEOUT}"
    by (simp add: ESP_OK_def ESP_ERR_INVALID_ARG_def ESP_FAIL_def ESP_ERR_TIMEOUT_def)
  with checkError_total [of "''jshI2CRead''" 261 boot] show ?thesis
    by (cases "checkError ''jshI2CRead'' 261 boot") (auto simp: boot_def)
qed

subsection \<open>Reads of no bytes\<close>

text \<open>
  Claim C7. For every device, address and \<open>sendStop\<close>, and whatever the platform would
  answer, a read of 0 bytes returns the state it was given: no exception is raised, no
  command link is created, and no call reaches the platform, so nothing is stored in the
  caller's buffer.
\<close>

theorem jshI2CRead_zero_count: "jshI2CRead tg device address 0 sendStop ret st = st"
  by (simp add: jshI2CRead_def)

theorem jshI2CRead_zero_count_witness:
  "hw (jshI2CRead esp32 EV_I2C1 80 0 True ESP_FAIL boot) = [] \<and>
   exceptions (jshI2CRead esp32 EV_I2C1 80 0 True ESP_FAIL boot) = []"
  using jshI2CRead_zero_count [of esp32 EV_I2C1 80 True ESP_FAIL boot]
  by (simp add: boot_fields)

text \<open>
  Claim C10. The count is tested before the device: for every device, supported or not,
  a read of 0 or fewer bytes returns the state it was given, with no exception raised;
  only with a positive count does a device that maps to no port raise ``Only I2C1 and
  I2C2 supported''.
\<close>

theorem jshI2CRead_count_checked_first:
  "(nBytes \<le> 0 \<longrightarrow> jshI2CRead tg device address nBytes sendStop ret st = st) \<and>
   (0 < nBytes \<and> getI2cFromDevice tg device = - 1 \<longrightarrow>
      jshI2CRead tg device address nBytes sendStop ret st =
        jsExceptionHere (JSET_ERROR ''Only I2C1 and I2C2 supported'' []) st)"
  by (simp add: jshI2CRead_def)

theorem jshI2CRead_count_checked_first_witness:
  "jshI2CRead esp32 (EV_OTHER 7) 80 0 True ESP_OK boot = boot \<and>
   jshI2CRead esp32c3 EV_I2C2 80 (- 3) False ESP_OK boot = boot \<and>
   jshI2CRead esp32c3 EV_I2C2 80 1 False ESP_OK boot =
     boot\<lparr>exceptions := [JSET_ERROR ''Only I2C1 and I2C2 supported'' []]\<rparr>"
  using jshI2CRead_count_checked_first [of 0 esp32 "EV_OTHER 7" 80 True ESP_OK boot]
    jshI2CRead_count_checked_first [of "- 3" esp32c3 EV_I2C2 80 False ESP_OK boot]
    jshI2CRead_count_checked_first [of 1 esp32c3 EV_I2C2 80 False ESP_OK boot]
  by (simp add: esp32c3_fields jsExceptionHere_def boot_fields)

subsection \<open>Reset\<close>

text \<open>
  Claim C9. \<open>I2CReset\<close> deletes the driver of every supported bus that is marked
  initialised, the first bus before the second, and makes no other call; afterwards no
  supported bus is marked initialised, every other device flag is as before, a port holds
  a driver exactly if it held one and belongs to no bus that was torn down, and no
  exception is raised. A supported bus that is not marked initialised gets no call, keeps
  its flag and keeps the driver state of its port.
\<close>

theorem I2CReset_tears_down:
  "hw (I2CReset tg st) =
     hw st @ map (\<lambda>d. I2cDriverDelete (getI2cFromDevice tg d))
               (filter (\<lambda>d. getI2cFromDevice tg d \<noteq> - 1 \<and> initialised st d)
                  [EV_I2C1, EV_I2C2]) \<and>
   (\<forall>d. initialised (I2CReset tg st) d =
          (initialised st d \<and> getI2cFromDevice tg d = - 1)) \<and>
   (\<forall>p. driver (I2CReset tg st) p =
          (driver st p \<and>
           \<not> (\<exists>d. getI2cFromDevice tg d = p \<and> p \<noteq> - 1 \<and> initialised st d))) \<and>
   exceptions (I2CReset tg st) = exceptions st"
proof (intro conjI allI)
  show "hw (I2CReset tg st) =
     hw st @ map (\<lambda>d. I2cDriverDelete (getI2cFromDevice tg d))
               (filter (\<lambda>d. getI2cFromDevice tg d \<noteq> - 1 \<and> initialised st d)
                  [EV_I2C1, EV_I2C2])"
    by (simp add: I2CReset_def Let_def jshIsDeviceInitialised_def jshSetDeviceInitialised_def
        i2c_driver_delete_def platform_def I2C_NUM_0_def I2C_NUM_1_def)
next
  fix d
  show "initialised (I2CReset tg st) d = (initialised st d \<and> getI2cFromDevice tg d = - 1)"
    by (cases d)
      (auto simp add: I2CReset_def Let_def jshIsDeviceInitialised_def
        jshSetDeviceInitialised_def i2c_driver_delete_def platform_def I2C_NUM_0_def
        I2C_NUM_1_def)
next
  fix p
  have ports: "\<And>d. getI2cFromDevice tg d = p \<and> p \<noteq> - 1 \<and> initialised st d \<longleftrightarrow>
      (d = EV_I2C1 \<and> p = 0 \<and> initialised st EV_I2C1) \<or>
      (d = EV_I2C2 \<and> 1 < ESPR_I2C_COUNT tg \<and> p = 1 \<and> initialised st EV_I2C2)"
    subgoal for d by (cases d) (auto simp add: I2C_NUM_0_def I2C_NUM_1_def)
    done
  show "driver (I2CReset tg st) p =
          (driver st p \<and>
           \<not> (\<exists>d. getI2cFromDevice tg d = p \<and> p \<noteq> - 1 \<and> initialised st d))"
    unfolding ports
    by (auto simp add: I2CReset_def Let_def jshIsDeviceInitialised_def
        jshSetDeviceInitialised_def i2c_driver_delete_def platform_def I2C_NUM_0_def
        I2C_NUM_1_def)
next
  show "exceptions (I2CReset tg st) = exceptions st"
    by (simp add: I2CReset_def Let_def jshIsDeviceInitialised_def jshSetDeviceInitialised_def
        i2c_driver_delete_def platform_def)
qed

theorem I2CReset_tears_down_witness:
  "hw (I2CReset esp32 both_up) = [I2cDriverDelete 0, I2cDriverDelete 1] \<and>
   initialised (I2CReset esp32 both_up) EV_I2C1 = False \<and>
   initialised (I2CReset esp32 both_up) EV_I2C2 = False \<and>
   driver (I2CReset esp32 both_up) 0 = False \<and>
   driver (I2CReset esp32 both_up) 1 = False \<and>
   hw (I2CReset esp32 boot) = []"
proof -
  note up = I2CReset_tears_down [of esp32 both_up]
  note idle = I2CReset_tears_down [of esp32 boot]
  have calls: "hw (I2CReset esp32 both_up) = [I2cDriverDelete 0, I2cDriverDelete 1]"
    using up by (simp add: esp32_fields I2C_NUM_0_def I2C_NUM_1_def both_up_fields)
  have flags: "initialised (I2CReset esp32 both_up) EV_I2C1 = False"
    "initialised (I2CReset esp32 both_up) EV_I2C2 = False"
    using up by (simp_all add: esp32_fields I2C_NUM_0_def I2C_NUM_1_def)
  have "\<exists>d. getI2cFromDevice esp32 d = 0 \<and> (0::int) \<noteq> - 1 \<and> initialised both_up d"
    by (rule exI [of _ EV_I2C1]) (simp add: I2C_NUM_0_def both_up_fields)
  then have port0: "driver (I2CReset esp32 both_up) 0 = False"
    using up by simp
  have "\<exists>d. getI2cFromDevice esp32 d = 1 \<and> (1::int) \<noteq> - 1 \<and> initialised both_up d"
    by (rule exI [of _ EV_I2C2]) (simp add: esp32_fields I2C_NUM_1_def both_up_fields)
  then have port1: "driver (I2CReset esp32 both_up) 1 = False"
    using up by simp
  have quiet: "hw (I2CReset esp32 boot) = []"
    using idle by (simp add: boot_fields)
  from calls flags port0 port1 quiet show ?thesis
    by simp
qed

end
